theory Spec2Isabelle
  imports Main "HOL-Library.Finite_Map"
begin

section \<open>JavaScript strings\<close>

text \<open>
  A JavaScript string is a sequence of code units and \<open>.length\<close> counts them. The model
  uses \<^typ>\<open>string\<close>: a list of characters, each one code unit in the range 0..255
  (ASCII and Latin-1), which covers every literal of the validator (\<open>"-"\<close>,
  \<open>"skip"\<close>, \<open>"manual"\<close>).

  \<open>String.prototype.trim\<close> removes WhiteSpace and LineTerminator code units from both
  ends; in this range they are TAB, LF, VT, FF, CR, SPACE and NBSP. The class \<open>\s\<close> of a
  regular expression is the same set.
\<close>

definition isWhiteSpace :: "char \<Rightarrow> bool" where
  "isWhiteSpace c \<longleftrightarrow> (of_char c :: nat) \<in> {9, 10, 11, 12, 13, 32, 160}"

definition trim :: "string \<Rightarrow> string" where
  "trim s = rev (dropWhile isWhiteSpace (rev (dropWhile isWhiteSpace s)))"

text \<open>
  \<open>String.prototype.toLowerCase\<close> on this range: A..Z and the Latin-1 capitals
  (0xC0..0xDE without the multiplication sign 0xD7) move up by 32, every other code unit
  stays.
\<close>

definition lowerChar :: "char \<Rightarrow> char" where
  "lowerChar c =
     (let n = (of_char c :: nat)
      in if (65 \<le> n \<and> n \<le> 90) \<or> (192 \<le> n \<and> n \<le> 222 \<and> n \<noteq> 215)
         then char_of (n + 32) else c)"

definition toLowerCase :: "string \<Rightarrow> string" where
  "toLowerCase s = map lowerChar s"

section \<open>Configuration: config/constants.js\<close>

text \<open>
  \<open>validators.utils.js\<close> imports \<open>MAX_ENTRY_LENGTH\<close>, \<open>CHANGELOG_ENTRY_PREFIXES\<close> and
  \<open>ENTRY_FORMATTING_PATTERN_REGEX\<close> from \<open>config/constants.js\<close>. The validator takes
  them as a record, so every theorem below holds for each configuration.

  The result of \<open>changelogEntry.match(ENTRY_FORMATTING_PATTERN_REGEX)\<close> is \<open>null\<close>
  (\<open>None\<close>) or an array whose elements 1, 2 and 3 are the captured groups, each a string
  or \<open>undefined\<close> (\<open>None\<close>) when the group took no part in the match.
\<close>

type_synonym groups = "string option \<times> string option \<times> string option"

record constants =
  MAX_ENTRY_LENGTH :: int
  CHANGELOG_ENTRY_PREFIXES :: "string list"
  ENTRY_FORMATTING_PATTERN_REGEX :: "string \<Rightarrow> groups option"

section \<open>Errors\<close>

text \<open>
  Every exception the modelled functions can raise. \<open>TypeError\<close> is the engine's own
  error: destructuring \<open>null\<close>, or calling a method on \<open>undefined\<close>. The other
  constructors are the classes of \<open>errors/index.js\<close>, with the constructor arguments
  the code passes. \<open>ApiError\<close> stands for a rejected call of the hosting API.
\<close>

datatype error =
    TypeError
  | ChangelogEntryMissingHyphenError
  | InvalidPrefixError string
  | InvalidPrefixForManualChangesetCreationError string
  | InvalidAdditionalPrefixWithSkipEntryOptionError
  | EmptyEntryDescriptionError string
  | EntryTooLongError nat
  | CategoryWithSkipOptionError
  | UpdatePRLabelError
  | ApiError

section \<open>isValidChangelogEntry\<close>

text \<open>The returned object \<open>{ prefix, trimmedLog }\<close>.\<close>

record entry =
  prefix :: string
  trimmedLog :: string

text \<open>
  Truthiness of a captured group: \<open>undefined\<close> and the empty string are falsy.
\<close>

definition truthy :: "string option \<Rightarrow> bool" where
  "truthy v = (case v of None \<Rightarrow> False | Some s \<Rightarrow> s \<noteq> [])"

text \<open>
  \<open>log.length\<close>, as \<open>new EntryTooLongError(log.length)\<close> reads it: a \<open>TypeError\<close> when
  \<open>log\<close> is \<open>undefined\<close>.
\<close>

definition entryTooLong :: "string option \<Rightarrow> error" where
  "entryTooLong log = (case log of None \<Rightarrow> TypeError | Some l \<Rightarrow> EntryTooLongError (length l))"

text \<open>
  The body of \<open>isValidChangelogEntry\<close> after the destructuring, branch by branch
  (\<open>capturedPrefix\<close> is the source's variable \<open>prefix\<close>, \<open>p\<close> its value when it is a
  string). \<open>prefix.toLowerCase()\<close> on an \<open>undefined\<close> prefix raises \<open>TypeError\<close>.
\<close>

definition validateGroups :: "constants \<Rightarrow> groups \<Rightarrow> int \<Rightarrow> string \<Rightarrow> error + entry" where
  "validateGroups cfg g totalEntries changesetCreationMode =
     (case g of (marker, capturedPrefix, log) \<Rightarrow>
        let trimmedLog = (if truthy log then trim (the log) else [])
        in if changesetCreationMode = ''manual'' then
             (if marker \<noteq> Some ''-'' then Inl ChangelogEntryMissingHyphenError
              else case capturedPrefix of
                     None \<Rightarrow> Inl TypeError
                   | Some p \<Rightarrow>
                       if toLowerCase p \<noteq> ''skip''
                       then Inl (InvalidPrefixForManualChangesetCreationError p)
                       else Inr \<lparr>prefix = p, trimmedLog = trimmedLog\<rparr>)
           else
             (if marker \<noteq> Some ''-'' then Inl ChangelogEntryMissingHyphenError
              else case capturedPrefix of
                     None \<Rightarrow> Inl TypeError
                   | Some p \<Rightarrow>
                       if toLowerCase p \<notin> set (CHANGELOG_ENTRY_PREFIXES cfg)
                       then Inl (InvalidPrefixError p)
                       else if p = ''skip'' \<and> totalEntries > 1
                       then Inl InvalidAdditionalPrefixWithSkipEntryOptionError
                       else if p \<noteq> ''skip'' \<and> \<not> truthy log
                       then Inl (EmptyEntryDescriptionError p)
                       else if int (length trimmedLog) > MAX_ENTRY_LENGTH cfg
                       then Inl (entryTooLong log)
                       else Inr \<lparr>prefix = p, trimmedLog = trimmedLog\<rparr>))"

text \<open>
  \<open>const [, marker, prefix, log] = changelogEntry.match(ENTRY_FORMATTING_PATTERN_REGEX)\<close>:
  destructuring \<open>null\<close> raises \<open>TypeError\<close> before any check runs.
\<close>

definition isValidChangelogEntry ::
    "constants \<Rightarrow> string \<Rightarrow> int \<Rightarrow> string \<Rightarrow> error + entry" where
  "isValidChangelogEntry cfg changelogEntry totalEntries changesetCreationMode =
     (case ENTRY_FORMATTING_PATTERN_REGEX cfg changelogEntry of
        None \<Rightarrow> Inl TypeError
      | Some g \<Rightarrow> validateGroups cfg g totalEntries changesetCreationMode)"

section \<open>A configuration to run the validator on\<close>

text \<open>
  Modelled from the spec: the entry grammar \<open>ENTRY_FORMATTING_PATTERN_REGEX\<close> of
  \<open>config/constants.js\<close>, which is not among the sources. The spec gives it as optional
  leading whitespace, a hyphen marker (captured; absent in the spec's scenario of a line
  without hyphen, which still matches), a prefix token, a colon separator and an optional
  trailing description: \<open>^\s*(-)?\s*(\w+)\s*:\s*(.+)?$\<close>. Each quantifier is greedy and
  no shorter choice can match, so the match is computed left to right. \<open>.\<close> excludes the
  line terminators LF and CR.
\<close>

definition isWordChar :: "char \<Rightarrow> bool" where
  "isWordChar c \<longleftrightarrow>
     (let n = (of_char c :: nat)
      in (48 \<le> n \<and> n \<le> 57) \<or> (65 \<le> n \<and> n \<le> 90) \<or> n = 95 \<or> (97 \<le> n \<and> n \<le> 122))"

definition isLineTerminator :: "char \<Rightarrow> bool" where
  "isLineTerminator c \<longleftrightarrow> (of_char c :: nat) \<in> {10, 13}"

definition entryGrammar :: "string \<Rightarrow> groups option" where
  "entryGrammar line =
     (let s0 = dropWhile isWhiteSpace line;
          marker = (if s0 \<noteq> [] \<and> hd s0 = CHR ''-'' then Some ''-'' else None);
          s1 = dropWhile isWhiteSpace (if marker = None then s0 else tl s0);
          p = takeWhile isWordChar s1;
          s2 = dropWhile isWhiteSpace (dropWhile isWordChar s1)
      in if p = [] \<or> s2 = [] \<or> hd s2 \<noteq> CHR '':'' then None
         else let d = dropWhile isWhiteSpace (tl s2)
              in if list_ex isLineTerminator d then None
                 else Some (marker, Some p, if d = [] then None else Some d))"

text \<open>
  Modelled from the spec: a taxonomy (a list of lowercase strings that includes
  \<open>"skip"\<close>; the spec's scenarios name \<open>"feat"\<close> and \<open>"fix"\<close>) and a maximum entry
  length, the values of \<open>config/constants.js\<close> being unknown.
\<close>

definition sampleConstants :: constants where
  "sampleConstants =
     \<lparr>MAX_ENTRY_LENGTH = 20,
      CHANGELOG_ENTRY_PREFIXES = [''feat'', ''fix'', ''skip''],
      ENTRY_FORMATTING_PATTERN_REGEX = entryGrammar\<rparr>"

section \<open>The skip option\<close>

text \<open>
  An entry map is a JavaScript object from prefix to entry text: a finite map. Only
  \<open>Object.keys(entryMap).includes("skip")\<close> and \<open>Object.keys(entryMap).length\<close> are read,
  so the keys are taken as a finite set: \<open>includes\<close> is membership, \<open>length\<close> the
  cardinality. The parameter may also be \<open>null\<close> or \<open>undefined\<close> (\<open>None\<close>), which the
  guard \<open>entryMap && ...\<close> lets through as falsy; every object is truthy.
\<close>

type_synonym entryMap = "(string, string) fmap"

definition Object_keys :: "entryMap \<Rightarrow> string fset" where
  "Object_keys m = fmdom m"

text \<open>\<open>isSkipEntry\<close> of \<open>validators.utils.js\<close>; its \<open>console.log\<close> is not modelled.\<close>

definition isSkipEntry :: "entryMap option \<Rightarrow> bool" where
  "isSkipEntry entryMap =
     (if (case entryMap of None \<Rightarrow> False | Some m \<Rightarrow> ''skip'' |\<in>| Object_keys m)
      then True else False)"

text \<open>
  An awaited call either rejects (\<open>Inl\<close>) or resolves (\<open>Inr\<close>) and leaves the world, here
  the labels of the pull request at the hosting service, in a new state.
\<close>

type_synonym ('s, 'a) async = "'s \<Rightarrow> (error + 'a) \<times> 's"

text \<open>
  The three operations of \<open>octokit.rest.issues\<close> that \<open>updatePRLabel\<close> calls, each with
  \<open>owner\<close>, \<open>repo\<close> and \<open>issue_number\<close>. Of a label only \<open>name\<close> is read.
\<close>

record 's octokit =
  listLabelsOnIssue :: "string \<Rightarrow> string \<Rightarrow> int \<Rightarrow> ('s, string list) async"
  addLabels :: "string \<Rightarrow> string \<Rightarrow> int \<Rightarrow> string list \<Rightarrow> ('s, unit) async"
  removeLabel :: "string \<Rightarrow> string \<Rightarrow> int \<Rightarrow> string \<Rightarrow> ('s, unit) async"

text \<open>
  \<open>updatePRLabel\<close>: the whole body is inside \<open>try\<close>, and \<open>catch\<close> replaces every
  rejection by \<open>UpdatePRLabelError\<close>; what a rejected call did to the world stays done.
\<close>

definition updatePRLabel ::
    "'s octokit \<Rightarrow> string \<Rightarrow> string \<Rightarrow> int \<Rightarrow> string \<Rightarrow> bool \<Rightarrow> ('s, unit) async" where
  "updatePRLabel octokit owner repo prNumber label addLabel s =
     (case listLabelsOnIssue octokit owner repo prNumber s of
        (Inl e, s1) \<Rightarrow> (Inl UpdatePRLabelError, s1)
      | (Inr currentLabels, s1) \<Rightarrow>
          let labelExists = list_ex (\<lambda>name. name = toLowerCase label) currentLabels
          in if addLabel \<and> \<not> labelExists then
               (case addLabels octokit owner repo prNumber [label] s1 of
                  (Inl e, s2) \<Rightarrow> (Inl UpdatePRLabelError, s2)
                | (Inr u, s2) \<Rightarrow> (Inr (), s2))
             else if \<not> addLabel \<and> labelExists then
               (case removeLabel octokit owner repo prNumber label s1 of
                  (Inl e, s2) \<Rightarrow> (Inl UpdatePRLabelError, s2)
                | (Inr u, s2) \<Rightarrow> (Inr (), s2))
             else (Inr (), s1))"

text \<open>
  \<open>handleSkipOption\<close>: \<open>updateLabel\<close> is the collaborator passed in, \<open>SKIP_LABEL\<close> the
  constant imported from \<open>config/constants.js\<close>. A rejection of the awaited
  \<open>updateLabel\<close> is not caught, so it is the rejection of \<open>handleSkipOption\<close>.
\<close>

definition handleSkipOption ::
    "'o \<Rightarrow> entryMap option \<Rightarrow> string \<Rightarrow> string \<Rightarrow> int \<Rightarrow>
     ('o \<Rightarrow> string \<Rightarrow> string \<Rightarrow> int \<Rightarrow> string \<Rightarrow> bool \<Rightarrow> ('s, 'r) async) \<Rightarrow>
     string \<Rightarrow> ('s, bool) async" where
  "handleSkipOption octokit entryMap owner repo prNumber updateLabel SKIP_LABEL s =
     (if (case entryMap of None \<Rightarrow> False | Some m \<Rightarrow> ''skip'' |\<in>| Object_keys m) then
        (if fcard (Object_keys (the entryMap)) > 1 then (Inl CategoryWithSkipOptionError, s)
         else case updateLabel octokit owner repo prNumber SKIP_LABEL True s of
                (Inl e, s') \<Rightarrow> (Inl e, s')
              | (Inr u, s') \<Rightarrow> (Inr True, s'))
      else case updateLabel octokit owner repo prNumber SKIP_LABEL False s of
             (Inl e, s') \<Rightarrow> (Inl e, s')
           | (Inr u, s') \<Rightarrow> (Inr False, s'))"

text \<open>
  Modelled from the spec: the code-hosting API, which is outside the repository, as an
  in-memory pull request: its label names, and whether the service answers. \<open>list-labels\<close>
  returns the labels, \<open>add-label\<close> appends, \<open>remove-label\<close> deletes; each call fails when
  the service does not answer.
\<close>

record pullRequest =
  labels :: "string list"
  reachable :: bool

definition memoryOctokit :: "pullRequest octokit" where
  "memoryOctokit =
     \<lparr>listLabelsOnIssue = (\<lambda>owner repo n s.
        if reachable s then (Inr (labels s), s) else (Inl ApiError, s)),
      addLabels = (\<lambda>owner repo n ls s.
        if reachable s then (Inr (), s\<lparr>labels := labels s @ ls\<rparr>) else (Inl ApiError, s)),
      removeLabel = (\<lambda>owner repo n l s.
        if reachable s then (Inr (), s\<lparr>labels := removeAll l (labels s)\<rparr>)
        else (Inl ApiError, s))\<rparr>"

text \<open>
  The spec describes the configured taxonomy as a list of lowercase strings: each member
  is its own lower-case form.
\<close>

definition lowercaseTaxonomy :: "constants \<Rightarrow> bool" where
  "lowercaseTaxonomy cfg = list_all (\<lambda>q. toLowerCase q = q) (CHANGELOG_ENTRY_PREFIXES cfg)"

section \<open>Evaluation and auxiliary facts\<close>

lemmas validator_defs =
  isValidChangelogEntry_def validateGroups_def entryTooLong_def truthy_def trim_def
  toLowerCase_def lowerChar_def isWhiteSpace_def

lemmas sample_defs =
  sampleConstants_def entryGrammar_def isWordChar_def isLineTerminator_def Let_def

lemma sole_key_iff: "k |\<in>| K \<and> \<not> fcard K > 1 \<longleftrightarrow> K = {|k|}"
proof
  assume a: "k |\<in>| K \<and> \<not> fcard K > 1"
  then have "fcard (K |-| {|k|}) = 0"
    by (simp add: fcard_fminus_fsingleton_if)
  then have "K |-| {|k|} = {||}"
    by simp
  with a show "K = {|k|}"
    by auto
next
  assume "K = {|k|}"
  then show "k |\<in>| K \<and> \<not> fcard K > 1"
    by (simp add: fcard_finsert_if)
qed

lemma other_key_iff:
  assumes "k |\<in>| K"
  shows "fcard K > 1 \<longleftrightarrow> (\<exists>j. j |\<in>| K \<and> j \<noteq> k)"
proof -
  have "\<not> fcard K > 1 \<longleftrightarrow> K = {|k|}"
    using sole_key_iff [of k K] assms by simp
  also have "\<dots> \<longleftrightarrow> \<not> (\<exists>j. j |\<in>| K \<and> j \<noteq> k)"
    using assms by auto
  finally show ?thesis
    by blast
qed

lemmas skip_defs =
  handleSkipOption_def isSkipEntry_def Object_keys_def updatePRLabel_def memoryOctokit_def
  toLowerCase_def lowerChar_def fcard_finsert_if

text \<open>What the sample grammar captures on the lines used below.\<close>

lemma entryGrammar_samples:
  "entryGrammar ''- skip: ignored text'' = Some (Some ''-'', Some ''skip'', Some ''ignored text'')"
  "entryGrammar ''- skip: '' = Some (Some ''-'', Some ''skip'', None)"
  "entryGrammar ''- feat: add dark mode'' = Some (Some ''-'', Some ''feat'', Some ''add dark mode'')"
  "entryGrammar ''- Feat: add dark mode'' = Some (Some ''-'', Some ''Feat'', Some ''add dark mode'')"
  "entryGrammar ''- feat: add dark mode toggle'' =
     Some (Some ''-'', Some ''feat'', Some ''add dark mode toggle'')"
  "entryGrammar ''- feat: add dark mode toggles'' =
     Some (Some ''-'', Some ''feat'', Some ''add dark mode toggles'')"
  "entryGrammar ''add dark mode'' = None"
  by (simp_all add: sample_defs isWhiteSpace_def)

section \<open>Properties of isValidChangelogEntry\<close>

text \<open>
  C1. The claim: whenever validation succeeds on a line whose prefix lower-cases to
  \<open>"skip"\<close>, the returned description is empty, whatever the line's description. The code
  computes \<open>trimmedLog\<close> before it looks at the prefix and returns it unchanged: on
  \<open>"- skip: ignored text"\<close> with one entry, both in manual and in normal mode, the
  result carries the description \<open>"ignored text"\<close>.
\<close>

theorem skip_entry_keeps_description:
  "isValidChangelogEntry sampleConstants ''- skip: ignored text'' 1 ''manual''
     = Inr \<lparr>prefix = ''skip'', trimmedLog = ''ignored text''\<rparr>
   \<and> isValidChangelogEntry sampleConstants ''- skip: ignored text'' 1 ''automatic''
     = Inr \<lparr>prefix = ''skip'', trimmedLog = ''ignored text''\<rparr>"
  by (simp add: validator_defs sample_defs)

text \<open>
  C3. In manual mode validation succeeds only when the captured prefix lower-cases to
  \<open>"skip"\<close>; a line with the marker \<open>"-"\<close> and any other prefix, taxonomy member or not,
  fails with \<open>InvalidPrefixForManualChangesetCreationError\<close> (the taxonomy is not
  consulted in this mode).
\<close>

theorem manual_mode_accepts_only_skip:
  "(isValidChangelogEntry cfg line totalEntries ''manual'' = Inr r \<longrightarrow>
      (\<exists>marker p log. ENTRY_FORMATTING_PATTERN_REGEX cfg line = Some (marker, Some p, log)
         \<and> toLowerCase p = ''skip''))
   \<and> (ENTRY_FORMATTING_PATTERN_REGEX cfg line = Some (Some ''-'', Some q, log') \<and>
        toLowerCase q \<noteq> ''skip'' \<longrightarrow>
      isValidChangelogEntry cfg line totalEntries ''manual''
        = Inl (InvalidPrefixForManualChangesetCreationError q))"
  by (auto simp add: isValidChangelogEntry_def validateGroups_def
        split: option.splits if_splits)

theorem manual_mode_accepts_only_skip_witness:
  "isValidChangelogEntry sampleConstants ''- skip: '' 1 ''manual''
     = Inr \<lparr>prefix = ''skip'', trimmedLog = []\<rparr>
   \<and> (\<exists>marker p log. ENTRY_FORMATTING_PATTERN_REGEX sampleConstants ''- skip: ''
          = Some (marker, Some p, log) \<and> toLowerCase p = ''skip'')
   \<and> ENTRY_FORMATTING_PATTERN_REGEX sampleConstants ''- feat: add dark mode''
        = Some (Some ''-'', Some ''feat'', Some ''add dark mode'')
   \<and> toLowerCase ''feat'' \<noteq> ''skip''
   \<and> ''feat'' \<in> set (CHANGELOG_ENTRY_PREFIXES sampleConstants)
   \<and> isValidChangelogEntry sampleConstants ''- feat: add dark mode'' 1 ''manual''
        = Inl (InvalidPrefixForManualChangesetCreationError ''feat'')"
proof -
  have ok: "isValidChangelogEntry sampleConstants ''- skip: '' 1 ''manual''
      = Inr \<lparr>prefix = ''skip'', trimmedLog = []\<rparr>"
    by (simp add: validator_defs sample_defs)
  have m: "ENTRY_FORMATTING_PATTERN_REGEX sampleConstants ''- feat: add dark mode''
      = Some (Some ''-'', Some ''feat'', Some ''add dark mode'')
    \<and> toLowerCase ''feat'' \<noteq> ''skip''"
    by (simp add: sampleConstants_def entryGrammar_samples toLowerCase_def lowerChar_def)
  have t: "''feat'' \<in> set (CHANGELOG_ENTRY_PREFIXES sampleConstants)"
    by (simp add: sampleConstants_def)
  from manual_mode_accepts_only_skip
         [of sampleConstants "''- skip: ''" 1 "\<lparr>prefix = ''skip'', trimmedLog = []\<rparr>"]
       manual_mode_accepts_only_skip
         [of sampleConstants "''- feat: add dark mode''" 1 _ "''feat''" "Some ''add dark mode''"]
       ok m t
  show ?thesis
    by blast
qed

text \<open>
  C4. A line that the entry grammar does not match at all makes \<open>match\<close> return
  \<open>null\<close>; destructuring it raises the engine's \<open>TypeError\<close>, in either mode and for
  every count, and none of the validator's own errors.
\<close>

theorem unmatched_line_raises_TypeError:
  assumes "ENTRY_FORMATTING_PATTERN_REGEX cfg line = None"
  shows "isValidChangelogEntry cfg line totalEntries mode = Inl TypeError
    \<and> isValidChangelogEntry cfg line totalEntries mode \<noteq> Inl ChangelogEntryMissingHyphenError"
  using assms by (simp add: isValidChangelogEntry_def)

theorem unmatched_line_raises_TypeError_witness:
  "ENTRY_FORMATTING_PATTERN_REGEX sampleConstants ''add dark mode'' = None
   \<and> isValidChangelogEntry sampleConstants ''add dark mode'' 1 ''automatic'' = Inl TypeError
   \<and> isValidChangelogEntry sampleConstants ''add dark mode'' 1 ''manual'' = Inl TypeError"
proof -
  have h: "ENTRY_FORMATTING_PATTERN_REGEX sampleConstants ''add dark mode'' = None"
    by (simp add: sampleConstants_def entryGrammar_samples)
  show ?thesis
    using h unmatched_line_raises_TypeError [OF h, of 1 "''automatic''"]
      unmatched_line_raises_TypeError [OF h, of 1 "''manual''"]
    by simp
qed

text \<open>
  C5. In normal mode (any mode other than \<open>"manual"\<close>), a line that the grammar splits
  into the marker \<open>"-"\<close>, a prefix and a description, where the prefix is a member of the
  configured (lowercase) taxonomy and not \<open>"skip"\<close>, the description is non-empty and
  its trimmed length is at most \<open>MAX_ENTRY_LENGTH\<close>, validates to exactly the prefix and
  the trimmed description.
\<close>

theorem normal_mode_returns_trimmed_description:
  assumes "ENTRY_FORMATTING_PATTERN_REGEX cfg line = Some (Some ''-'', Some p, Some description)"
    and "lowercaseTaxonomy cfg"
    and "p \<in> set (CHANGELOG_ENTRY_PREFIXES cfg)"
    and "p \<noteq> ''skip''"
    and "description \<noteq> []"
    and "int (length (trim description)) \<le> MAX_ENTRY_LENGTH cfg"
    and "mode \<noteq> ''manual''"
  shows "isValidChangelogEntry cfg line totalEntries mode
    = Inr \<lparr>prefix = p, trimmedLog = trim description\<rparr>"
proof -
  from assms(2,3) have "toLowerCase p = p"
    by (simp add: lowercaseTaxonomy_def list_all_iff)
  with assms(3) have "toLowerCase p \<in> set (CHANGELOG_ENTRY_PREFIXES cfg)"
    by simp
  with assms(1,4,5,6,7) show ?thesis
    by (simp add: isValidChangelogEntry_def validateGroups_def truthy_def)
qed

theorem normal_mode_returns_trimmed_description_witness:
  "ENTRY_FORMATTING_PATTERN_REGEX sampleConstants ''- fix:   handle empty input  ''
     = Some (Some ''-'', Some ''fix'', Some ''handle empty input  '')
   \<and> lowercaseTaxonomy sampleConstants
   \<and> ''fix'' \<in> set (CHANGELOG_ENTRY_PREFIXES sampleConstants)
   \<and> ''fix'' \<noteq> ''skip''
   \<and> ''handle empty input  '' \<noteq> []
   \<and> int (length (trim ''handle empty input  '')) \<le> MAX_ENTRY_LENGTH sampleConstants
   \<and> ''automatic'' \<noteq> ''manual''
   \<and> isValidChangelogEntry sampleConstants ''- fix:   handle empty input  '' 1 ''automatic''
       = Inr \<lparr>prefix = ''fix'', trimmedLog = ''handle empty input''\<rparr>"
proof -
  have h1: "ENTRY_FORMATTING_PATTERN_REGEX sampleConstants ''- fix:   handle empty input  ''
     = Some (Some ''-'', Some ''fix'', Some ''handle empty input  '')"
    by (simp add: sample_defs isWhiteSpace_def)
  have h2: "lowercaseTaxonomy sampleConstants"
    by (simp add: lowercaseTaxonomy_def sampleConstants_def toLowerCase_def lowerChar_def)
  have h3: "''fix'' \<in> set (CHANGELOG_ENTRY_PREFIXES sampleConstants)"
    by (simp add: sampleConstants_def)
  have h4: "''fix'' \<noteq> ''skip''"
    by simp
  have h5: "''handle empty input  '' \<noteq> []"
    by simp
  have tr: "trim ''handle empty input  '' = ''handle empty input''"
    by (simp add: trim_def isWhiteSpace_def)
  have h6: "int (length (trim ''handle empty input  '')) \<le> MAX_ENTRY_LENGTH sampleConstants"
    by (simp add: tr sampleConstants_def)
  have h7: "''automatic'' \<noteq> ''manual''"
    by simp
  show ?thesis
    using normal_mode_returns_trimmed_description [OF h1 h2 h3 h4 h5 h6 h7, of 1]
      h1 h2 h3 h6 tr
    by simp
qed

text \<open>
  C6. The claim: \<open>"- feat: add dark mode"\<close> with one entry in normal mode validates to the
  description \<open>"Add dark mode"\<close>, its first letter capitalized. The code returns the
  trimmed description as captured: \<open>"add dark mode"\<close>.
\<close>

theorem scenario_A_description_not_capitalized:
  "isValidChangelogEntry sampleConstants ''- feat: add dark mode'' 1 ''automatic''
     = Inr \<lparr>prefix = ''feat'', trimmedLog = ''add dark mode''\<rparr>
   \<and> isValidChangelogEntry sampleConstants ''- feat: add dark mode'' 1 ''automatic''
     \<noteq> Inr \<lparr>prefix = ''feat'', trimmedLog = ''Add dark mode''\<rparr>"
  by (simp add: validator_defs sample_defs)

text \<open>
  C7. In normal mode, for a line with the marker \<open>"-"\<close>, a prefix that passes the
  taxonomy check and is not \<open>"skip"\<close>, and a non-empty description: a trimmed length of
  exactly \<open>MAX_ENTRY_LENGTH\<close> validates, a trimmed length of \<open>MAX_ENTRY_LENGTH + 1\<close>
  fails with \<open>EntryTooLongError\<close> (which carries the length of the untrimmed description).
\<close>

theorem entry_length_boundary:
  assumes "ENTRY_FORMATTING_PATTERN_REGEX cfg line = Some (Some ''-'', Some p, Some description)"
    and "toLowerCase p \<in> set (CHANGELOG_ENTRY_PREFIXES cfg)"
    and "p \<noteq> ''skip''"
    and "description \<noteq> []"
    and "mode \<noteq> ''manual''"
  shows "(int (length (trim description)) = MAX_ENTRY_LENGTH cfg \<longrightarrow>
            isValidChangelogEntry cfg line totalEntries mode
              = Inr \<lparr>prefix = p, trimmedLog = trim description\<rparr>)
       \<and> (int (length (trim description)) = MAX_ENTRY_LENGTH cfg + 1 \<longrightarrow>
            isValidChangelogEntry cfg line totalEntries mode
              = Inl (EntryTooLongError (length description)))"
  using assms
  by (simp add: isValidChangelogEntry_def validateGroups_def truthy_def entryTooLong_def)

theorem entry_length_boundary_witness:
  "int (length (trim ''add dark mode toggle'')) = MAX_ENTRY_LENGTH sampleConstants
   \<and> isValidChangelogEntry sampleConstants ''- feat: add dark mode toggle'' 1 ''automatic''
       = Inr \<lparr>prefix = ''feat'', trimmedLog = ''add dark mode toggle''\<rparr>
   \<and> int (length (trim ''add dark mode toggles'')) = MAX_ENTRY_LENGTH sampleConstants + 1
   \<and> isValidChangelogEntry sampleConstants ''- feat: add dark mode toggles'' 1 ''automatic''
       = Inl (EntryTooLongError 21)"
proof -
  have g1: "ENTRY_FORMATTING_PATTERN_REGEX sampleConstants ''- feat: add dark mode toggle''
      = Some (Some ''-'', Some ''feat'', Some ''add dark mode toggle'')"
    and g2: "ENTRY_FORMATTING_PATTERN_REGEX sampleConstants ''- feat: add dark mode toggles''
      = Some (Some ''-'', Some ''feat'', Some ''add dark mode toggles'')"
    by (simp_all add: sampleConstants_def entryGrammar_samples)
  have t: "toLowerCase ''feat'' \<in> set (CHANGELOG_ENTRY_PREFIXES sampleConstants)"
    by (simp add: sampleConstants_def toLowerCase_def lowerChar_def)
  have n: "''feat'' \<noteq> ''skip''" "''add dark mode toggle'' \<noteq> []"
    "''add dark mode toggles'' \<noteq> []" "''automatic'' \<noteq> ''manual''"
    by simp_all
  have tr: "trim ''add dark mode toggle'' = ''add dark mode toggle''"
    "trim ''add dark mode toggles'' = ''add dark mode toggles''"
    by (simp_all add: trim_def isWhiteSpace_def)
  have l: "int (length (trim ''add dark mode toggle'')) = MAX_ENTRY_LENGTH sampleConstants"
    "int (length (trim ''add dark mode toggles'')) = MAX_ENTRY_LENGTH sampleConstants + 1"
    by (simp_all add: tr sampleConstants_def)
  show ?thesis
    using entry_length_boundary [OF g1 t n(1) n(2) n(4), of 1]
      entry_length_boundary [OF g2 t n(1) n(3) n(4), of 1] l tr
    by simp
qed




section \<open>Properties of the skip option\<close>

text \<open>
  C2. The claim: \<open>handleSkipOption\<close> returns true if and only if \<open>"skip"\<close> is the only
  key, fails with \<open>CategoryWithSkipOptionError\<close> when \<open>"skip"\<close> comes with another key,
  and returns false for every map without \<open>"skip"\<close>. Before it returns, the function
  awaits \<open>updateLabel\<close> and does not catch its rejection: with \<open>updatePRLabel\<close> as the
  collaborator and a hosting service that does not answer, the map \<open>{skip: ""}\<close> ends in
  \<open>UpdatePRLabelError\<close>, not in true.
\<close>

theorem handleSkipOption_sole_skip_counterexample:
  "Object_keys (fmap_of_list [(''skip'', [])]) = {|''skip''|}
   \<and> handleSkipOption memoryOctokit (Some (fmap_of_list [(''skip'', [])])) ''owner'' ''repo'' 7
        updatePRLabel ''skip-changelog'' \<lparr>labels = [], reachable = False\<rparr>
     = (Inl UpdatePRLabelError, \<lparr>labels = [], reachable = False\<rparr>)
   \<and> fst (handleSkipOption memoryOctokit (Some (fmap_of_list [(''skip'', [])])) ''owner''
        ''repo'' 7 updatePRLabel ''skip-changelog'' \<lparr>labels = [], reachable = False\<rparr>)
     \<noteq> Inr True"
  by (simp add: skip_defs)

text \<open>
  C2, amended. For every entry map, collaborator and state of the world:
  \<open>handleSkipOption\<close> returns true only if \<open>"skip"\<close> is the only key of the map; a map
  with \<open>"skip"\<close> and another key fails with \<open>CategoryWithSkipOptionError\<close>; a map whose
  only key is \<open>"skip"\<close> returns true when the awaited \<open>updateLabel(..., true)\<close> succeeds;
  a map without \<open>"skip"\<close> (or no map) returns false when the awaited
  \<open>updateLabel(..., false)\<close> succeeds; in the last two cases a failure of \<open>updateLabel\<close>
  is the failure of \<open>handleSkipOption\<close>.
\<close>

theorem handleSkipOption_result:
  "(fst (handleSkipOption octokit entryMap owner repo prNumber updateLabel SKIP_LABEL s) = Inr True
      \<longrightarrow> (\<exists>m. entryMap = Some m \<and> Object_keys m = {|''skip''|}))
   \<and> ((\<exists>m k. entryMap = Some m \<and> ''skip'' |\<in>| Object_keys m \<and> k |\<in>| Object_keys m
          \<and> k \<noteq> ''skip'')
      \<longrightarrow> fst (handleSkipOption octokit entryMap owner repo prNumber updateLabel SKIP_LABEL s)
            = Inl CategoryWithSkipOptionError)
   \<and> ((\<exists>m. entryMap = Some m \<and> Object_keys m = {|''skip''|})
      \<longrightarrow> fst (handleSkipOption octokit entryMap owner repo prNumber updateLabel SKIP_LABEL s)
            = (case fst (updateLabel octokit owner repo prNumber SKIP_LABEL True s) of
                 Inl e \<Rightarrow> Inl e | Inr u \<Rightarrow> Inr True))
   \<and> (\<not> (\<exists>m. entryMap = Some m \<and> ''skip'' |\<in>| Object_keys m)
      \<longrightarrow> fst (handleSkipOption octokit entryMap owner repo prNumber updateLabel SKIP_LABEL s)
            = (case fst (updateLabel octokit owner repo prNumber SKIP_LABEL False s) of
                 Inl e \<Rightarrow> Inl e | Inr u \<Rightarrow> Inr False))"
proof (cases entryMap)
  case None
  then show ?thesis
    by (simp add: handleSkipOption_def split: prod.splits sum.splits)
next
  case (Some m)
  show ?thesis
  proof (cases "''skip'' |\<in>| Object_keys m")
    case False
    with Some show ?thesis
      by (auto simp add: handleSkipOption_def split: prod.splits sum.splits)
  next
    case True
    show ?thesis
    proof (cases "fcard (Object_keys m) > 1")
      case many: True
      then have "Object_keys m \<noteq> {|''skip''|}"
        using sole_key_iff [of "''skip''" "Object_keys m"] by blast
      with Some True many show ?thesis
        by (simp add: handleSkipOption_def)
    next
      case one: False
      with True have sole: "Object_keys m = {|''skip''|}"
        using sole_key_iff [of "''skip''" "Object_keys m"] by blast
      then have "\<not> (\<exists>k. k |\<in>| Object_keys m \<and> k \<noteq> ''skip'')"
        by simp
      with Some True one sole show ?thesis
        by (auto simp add: handleSkipOption_def split: prod.splits sum.splits)
    qed
  qed
qed

theorem handleSkipOption_result_witness:
  "Object_keys (fmap_of_list [(''skip'', [])]) = {|''skip''|}
   \<and> fst (updatePRLabel memoryOctokit ''owner'' ''repo'' 7 ''skip-changelog'' True
        \<lparr>labels = [], reachable = True\<rparr>) = Inr ()
   \<and> fst (handleSkipOption memoryOctokit (Some (fmap_of_list [(''skip'', [])])) ''owner''
        ''repo'' 7 updatePRLabel ''skip-changelog'' \<lparr>labels = [], reachable = True\<rparr>)
     = Inr True
   \<and> ''feat'' |\<in>| Object_keys (fmap_of_list [(''skip'', []), (''feat'', ''Add dark mode'')])
   \<and> fst (handleSkipOption memoryOctokit
        (Some (fmap_of_list [(''skip'', []), (''feat'', ''Add dark mode'')])) ''owner''
        ''repo'' 7 updatePRLabel ''skip-changelog'' \<lparr>labels = [], reachable = True\<rparr>)
     = Inl CategoryWithSkipOptionError
   \<and> ''skip'' |\<notin>| Object_keys (fmap_of_list [(''feat'', ''Add dark mode'')])
   \<and> fst (updatePRLabel memoryOctokit ''owner'' ''repo'' 7 ''skip-changelog'' False
        \<lparr>labels = [''skip-changelog''], reachable = True\<rparr>) = Inr ()
   \<and> fst (handleSkipOption memoryOctokit (Some (fmap_of_list [(''feat'', ''Add dark mode'')]))
        ''owner'' ''repo'' 7 updatePRLabel ''skip-changelog''
        \<lparr>labels = [''skip-changelog''], reachable = True\<rparr>)
     = Inr False"
proof -
  have k1: "\<exists>m. Some (fmap_of_list [(''skip'', [])]) = Some m \<and> Object_keys m = {|''skip''|}"
    by (simp add: Object_keys_def)
  have k2: "\<exists>m k. Some (fmap_of_list [(''skip'', []), (''feat'', ''Add dark mode'')]) = Some m
      \<and> ''skip'' |\<in>| Object_keys m \<and> k |\<in>| Object_keys m \<and> k \<noteq> ''skip''"
    by (rule exI [of _ "fmap_of_list [(''skip'', []), (''feat'', ''Add dark mode'')]"],
        rule exI [of _ "''feat''"]) (simp add: Object_keys_def)
  have k3: "\<not> (\<exists>m. Some (fmap_of_list [(''feat'', ''Add dark mode'')]) = Some m
      \<and> ''skip'' |\<in>| Object_keys m)"
    by (simp add: Object_keys_def)
  have u1: "fst (updatePRLabel memoryOctokit ''owner'' ''repo'' 7 ''skip-changelog'' True
        \<lparr>labels = [], reachable = True\<rparr>) = Inr ()"
    by (simp add: skip_defs)
  have u2: "fst (updatePRLabel memoryOctokit ''owner'' ''repo'' 7 ''skip-changelog'' False
        \<lparr>labels = [''skip-changelog''], reachable = True\<rparr>) = Inr ()"
    by (simp add: skip_defs)
  note sole = handleSkipOption_result [THEN conjunct2, THEN conjunct2, THEN conjunct1, THEN mp]
  note both = handleSkipOption_result [THEN conjunct2, THEN conjunct1, THEN mp]
  note none = handleSkipOption_result [THEN conjunct2, THEN conjunct2, THEN conjunct2, THEN mp]
  have r1: "fst (handleSkipOption memoryOctokit (Some (fmap_of_list [(''skip'', [])])) ''owner''
        ''repo'' 7 updatePRLabel ''skip-changelog'' \<lparr>labels = [], reachable = True\<rparr>)
     = Inr True"
    by (simp only: sole [OF k1] u1 sum.case)
  have r2: "fst (handleSkipOption memoryOctokit
        (Some (fmap_of_list [(''skip'', []), (''feat'', ''Add dark mode'')])) ''owner''
        ''repo'' 7 updatePRLabel ''skip-changelog'' \<lparr>labels = [], reachable = True\<rparr>)
     = Inl CategoryWithSkipOptionError"
    by (rule both [OF k2])
  have r3: "fst (handleSkipOption memoryOctokit (Some (fmap_of_list [(''feat'', ''Add dark mode'')]))
        ''owner'' ''repo'' 7 updatePRLabel ''skip-changelog''
        \<lparr>labels = [''skip-changelog''], reachable = True\<rparr>)
     = Inr False"
    by (simp only: none [OF k3] u2 sum.case)
  have o1: "Object_keys (fmap_of_list [(''skip'', [])]) = {|''skip''|}"
    and o2: "''feat'' |\<in>| Object_keys (fmap_of_list [(''skip'', []), (''feat'', ''Add dark mode'')])"
    and o3: "''skip'' |\<notin>| Object_keys (fmap_of_list [(''feat'', ''Add dark mode'')])"
    by (simp_all add: Object_keys_def)
  show ?thesis
    by (intro conjI o1 o2 o3 u1 u2 r1 r2 r3)
qed

text \<open>
  C9. When the entry map has the key \<open>"skip"\<close> and another key, \<open>handleSkipOption\<close>
  throws \<open>CategoryWithSkipOptionError\<close> and the world is as it was: this holds for every
  collaborator \<open>updateLabel\<close> and every type of state, also for a collaborator that
  changes the state on each call, so \<open>updateLabel\<close> is not called on this path and no
  label is added or removed.
\<close>

theorem skip_with_category_rejected_before_label_update:
  assumes "''skip'' |\<in>| Object_keys m" and "k |\<in>| Object_keys m" and "k \<noteq> ''skip''"
  shows "handleSkipOption octokit (Some m) owner repo prNumber updateLabel SKIP_LABEL s
    = (Inl CategoryWithSkipOptionError, s)"
proof -
  from assms have "fcard (Object_keys m) > 1"
    using other_key_iff [of "''skip''" "Object_keys m"] by blast
  with assms(1) show ?thesis
    by (simp add: handleSkipOption_def)
qed

text \<open>
  The witness runs the map \<open>{skip: "", feat: "Add dark mode"}\<close> twice: with
  \<open>updatePRLabel\<close> on a pull request that carries the skip label (which the path without
  \<open>"skip"\<close> would remove), and with a collaborator that only counts its calls.
\<close>

theorem skip_with_category_rejected_before_label_update_witness:
  "''skip'' |\<in>| Object_keys (fmap_of_list [(''skip'', []), (''feat'', ''Add dark mode'')])
   \<and> ''feat'' |\<in>| Object_keys (fmap_of_list [(''skip'', []), (''feat'', ''Add dark mode'')])
   \<and> ''feat'' \<noteq> ''skip''
   \<and> handleSkipOption memoryOctokit
        (Some (fmap_of_list [(''skip'', []), (''feat'', ''Add dark mode'')])) ''owner''
        ''repo'' 7 updatePRLabel ''skip-changelog''
        \<lparr>labels = [''skip-changelog''], reachable = True\<rparr>
     = (Inl CategoryWithSkipOptionError, \<lparr>labels = [''skip-changelog''], reachable = True\<rparr>)
   \<and> handleSkipOption ()
        (Some (fmap_of_list [(''skip'', []), (''feat'', ''Add dark mode'')])) ''owner''
        ''repo'' 7 (\<lambda>octokit owner repo prNumber label addLabel calls. (Inr (), Suc calls))
        ''skip-changelog'' (0::nat)
     = (Inl CategoryWithSkipOptionError, 0)"
proof -
  have h1: "''skip'' |\<in>| Object_keys (fmap_of_list [(''skip'', []), (''feat'', ''Add dark mode'')])"
    and h2: "''feat'' |\<in>| Object_keys (fmap_of_list [(''skip'', []), (''feat'', ''Add dark mode'')])"
    and h3: "''feat'' \<noteq> ''skip''"
    by (simp_all add: Object_keys_def)
  show ?thesis
    using h1 h2 h3
      skip_with_category_rejected_before_label_update [OF h1 h2 h3, of memoryOctokit
        "''owner''" "''repo''" 7 updatePRLabel "''skip-changelog''"
        "\<lparr>labels = [''skip-changelog''], reachable = True\<rparr>"]
      skip_with_category_rejected_before_label_update [OF h1 h2 h3, of "()"
        "''owner''" "''repo''" 7
        "\<lambda>octokit owner repo prNumber label addLabel calls. (Inr (), Suc calls)"
        "''skip-changelog''" "0::nat"]
    by simp
qed

text \<open>
  C10. \<open>isSkipEntry\<close> returns true exactly when the entry map is truthy and \<open>"skip"\<close> is
  among its keys; in particular it returns true when other keys stand beside \<open>"skip"\<close>.
  It is a total function to the booleans: it checks no exclusivity and raises nothing.
\<close>

theorem isSkipEntry_iff_skip_key:
  "(isSkipEntry entryMap \<longleftrightarrow> (\<exists>m. entryMap = Some m \<and> ''skip'' |\<in>| Object_keys m))
   \<and> (''skip'' |\<in>| Object_keys m' \<and> k |\<in>| Object_keys m' \<and> k \<noteq> ''skip''
        \<longrightarrow> isSkipEntry (Some m'))"
  by (cases entryMap) (simp_all add: isSkipEntry_def)

theorem isSkipEntry_iff_skip_key_witness:
  "''skip'' |\<in>| Object_keys (fmap_of_list [(''feat'', ''Add dark mode''), (''skip'', [])])
   \<and> ''feat'' |\<in>| Object_keys (fmap_of_list [(''feat'', ''Add dark mode''), (''skip'', [])])
   \<and> ''feat'' \<noteq> ''skip''
   \<and> isSkipEntry (Some (fmap_of_list [(''feat'', ''Add dark mode''), (''skip'', [])]))
   \<and> \<not> isSkipEntry (Some (fmap_of_list [(''feat'', ''Add dark mode'')]))
   \<and> \<not> isSkipEntry None"
proof -
  have h: "''skip'' |\<in>| Object_keys (fmap_of_list [(''feat'', ''Add dark mode''), (''skip'', [])])
      \<and> ''feat'' |\<in>| Object_keys (fmap_of_list [(''feat'', ''Add dark mode''), (''skip'', [])])
      \<and> ''feat'' \<noteq> ''skip''"
    and n: "''skip'' |\<notin>| Object_keys (fmap_of_list [(''feat'', ''Add dark mode'')])"
    by (simp_all add: Object_keys_def)
  from isSkipEntry_iff_skip_key
         [of "Some (fmap_of_list [(''feat'', ''Add dark mode'')])"
            "fmap_of_list [(''feat'', ''Add dark mode''), (''skip'', [])]" "''feat''"]
       isSkipEntry_iff_skip_key [of None] h n
  show ?thesis
    by simp
qed

end
